theory Spec2Isabelle
  imports Complex_Main "HOL-Library.Char_ord"
begin

section \<open>Characters and strings as the Python code sees them\<close>

text \<open>
  Python strings are modelled as \<open>char list\<close>, and the texts are taken to be ASCII. The
  character classes below are what Python's \<open>re\<close> and \<open>str\<close> methods use on ASCII
  characters (\<open>\d\<close>, \<open>\w\<close>, \<open>\s\<close>, \<open>lower()\<close>). Of the other characters, the next-line and
  no-break-space characters are white space, as in Python; every other one counts as a
  symbol that is neither letter nor digit, which Python does not do for accented letters.
\<close>

definition is_digit :: "char \<Rightarrow> bool" where
  "is_digit c = (CHR ''0'' \<le> c \<and> c \<le> CHR ''9'')"

definition is_lower :: "char \<Rightarrow> bool" where
  "is_lower c = (CHR ''a'' \<le> c \<and> c \<le> CHR ''z'')"

definition is_upper :: "char \<Rightarrow> bool" where
  "is_upper c = (CHR ''A'' \<le> c \<and> c \<le> CHR ''Z'')"

definition is_alpha :: "char \<Rightarrow> bool" where
  "is_alpha c = (is_lower c \<or> is_upper c)"

definition is_word :: "char \<Rightarrow> bool" where
  "is_word c = (is_alpha c \<or> is_digit c \<or> c = CHR ''_'')"

definition is_space :: "char \<Rightarrow> bool" where
  "is_space c = (c = CHR '' '' \<or> (CHR 0x09 \<le> c \<and> c \<le> CHR 0x0D) \<or> (CHR 0x1C \<le> c \<and> c \<le> CHR 0x1F)
                 \<or> c = CHR 0x85 \<or> c = CHR 0xA0)"

definition upper_of :: "char \<Rightarrow> char option" where
  "upper_of = map_of (zip ''abcdefghijklmnopqrstuvwxyz'' ''ABCDEFGHIJKLMNOPQRSTUVWXYZ'')"

definition lower_of :: "char \<Rightarrow> char option" where
  "lower_of = map_of (zip ''ABCDEFGHIJKLMNOPQRSTUVWXYZ'' ''abcdefghijklmnopqrstuvwxyz'')"

definition lower_char :: "char \<Rightarrow> char" where
  "lower_char c = (if is_upper c then (case lower_of c of Some l \<Rightarrow> l | None \<Rightarrow> c) else c)"

definition upper_char :: "char \<Rightarrow> char" where
  "upper_char c = (if is_lower c then (case upper_of c of Some u \<Rightarrow> u | None \<Rightarrow> c) else c)"

definition lower :: "string \<Rightarrow> string" where
  "lower s = map lower_char s"

section \<open>Regular expressions with the backtracking order of Python's re\<close>

datatype cclass = CDigit | CSpace | CNonSpace | CNonWord | CAny | CAlpha | COneOf string

fun in_class :: "cclass \<Rightarrow> char \<Rightarrow> bool" where
  "in_class CDigit c = is_digit c"
| "in_class CSpace c = is_space c"
| "in_class CNonSpace c = (\<not> is_space c)"
| "in_class CNonWord c = (\<not> is_word c)"
| "in_class CAny c = (c \<noteq> CHR 0x0A)"
| "in_class CAlpha c = is_alpha c"
| "in_class (COneOf cs) c = (c \<in> set cs)"

datatype re =
    Eps
  | Lit string
  | Cls cclass
  | Cat re re
  | Alt re re
  | Opt re
  | Star re
  | LStar re
  | Rep nat nat re
  | Grp nat re
  | WordB

type_synonym mstate = "char option \<times> string \<times> (nat \<times> string) list"

fun lit_match :: "bool \<Rightarrow> string \<Rightarrow> char option \<Rightarrow> string \<Rightarrow> (char option \<times> string) option" where
  "lit_match ic [] p s = Some (p, s)"
| "lit_match ic (c # cs) p [] = None"
| "lit_match ic (c # cs) p (x # xs) =
     (if (if ic then lower_char c = lower_char x else c = x) then lit_match ic cs (Some x) xs else None)"

primrec star :: "(mstate \<Rightarrow> mstate list) \<Rightarrow> nat \<Rightarrow> mstate \<Rightarrow> mstate list" where
  "star f 0 st = [st]"
| "star f (Suc n) st =
     concat (map (\<lambda>st'. if length (fst (snd st')) < length (fst (snd st)) then star f n st' else [])
                 (f st)) @ [st]"

primrec lstar :: "(mstate \<Rightarrow> mstate list) \<Rightarrow> nat \<Rightarrow> mstate \<Rightarrow> mstate list" where
  "lstar f 0 st = [st]"
| "lstar f (Suc n) st =
     st # concat (map (\<lambda>st'. if length (fst (snd st')) < length (fst (snd st)) then lstar f n st' else [])
                      (f st))"

fun rep :: "(mstate \<Rightarrow> mstate list) \<Rightarrow> nat \<Rightarrow> nat \<Rightarrow> mstate \<Rightarrow> mstate list" where
  "rep f m 0 st = (if m = 0 then [st] else [])"
| "rep f m (Suc n) st = concat (map (rep f (m - 1) n) (f st)) @ (if m = 0 then [st] else [])"

definition at_boundary :: "char option \<Rightarrow> string \<Rightarrow> bool" where
  "at_boundary p s =
     ((case p of None \<Rightarrow> False | Some c \<Rightarrow> is_word c) \<noteq> (case s of [] \<Rightarrow> False | c # _ \<Rightarrow> is_word c))"

definition set_group :: "nat \<Rightarrow> string \<Rightarrow> mstate \<Rightarrow> mstate" where
  "set_group i s st =
     (fst st, fst (snd st), (i, take (length s - length (fst (snd st))) s) # snd (snd st))"

primrec ms :: "re \<Rightarrow> bool \<Rightarrow> mstate \<Rightarrow> mstate list" where
  "ms Eps ic st = [st]"
| "ms (Lit w) ic st =
     (case lit_match ic w (fst st) (fst (snd st)) of
        None \<Rightarrow> []
      | Some (p', s') \<Rightarrow> [(p', s', snd (snd st))])"
| "ms (Cls k) ic st =
     (case fst (snd st) of
        [] \<Rightarrow> []
      | x # xs \<Rightarrow> if in_class k x then [(Some x, xs, snd (snd st))] else [])"
| "ms (Cat a b) ic st = concat (map (ms b ic) (ms a ic st))"
| "ms (Alt a b) ic st = ms a ic st @ ms b ic st"
| "ms (Opt a) ic st = ms a ic st @ [st]"
| "ms (Star a) ic st = star (ms a ic) (length (fst (snd st))) st"
| "ms (LStar a) ic st = lstar (ms a ic) (length (fst (snd st))) st"
| "ms (Rep m n a) ic st = rep (ms a ic) m n st"
| "ms (Grp i a) ic st = map (set_group i (fst (snd st))) (ms a ic st)"
| "ms WordB ic st = (if at_boundary (fst st) (fst (snd st)) then [st] else [])"

record rmatch =
  m_pre :: string
  m_text :: string
  m_post :: string
  m_groups :: "(nat \<times> string) list"

definition prev_char :: "string \<Rightarrow> char option" where
  "prev_char pre = (if pre = [] then None else Some (last pre))"

definition mk_match :: "string \<Rightarrow> string \<Rightarrow> mstate \<Rightarrow> rmatch" where
  "mk_match pre s st =
     \<lparr>m_pre = pre, m_text = take (length s - length (fst (snd st))) s,
      m_post = fst (snd st), m_groups = snd (snd st)\<rparr>"

fun search_from :: "re \<Rightarrow> bool \<Rightarrow> string \<Rightarrow> string \<Rightarrow> rmatch option" where
  "search_from r ic pre [] =
     (case ms r ic (prev_char pre, [], []) of [] \<Rightarrow> None | st # _ \<Rightarrow> Some (mk_match pre [] st))"
| "search_from r ic pre (x # xs) =
     (case ms r ic (prev_char pre, x # xs, []) of
        [] \<Rightarrow> search_from r ic (pre @ [x]) xs
      | st # _ \<Rightarrow> Some (mk_match pre (x # xs) st))"

text \<open>\<open>re.search\<close>: the leftmost position with a match, and there the first match in
  backtracking order.\<close>

definition re_search :: "re \<Rightarrow> bool \<Rightarrow> string \<Rightarrow> rmatch option" where
  "re_search r ic s = search_from r ic [] s"

definition group :: "rmatch \<Rightarrow> nat \<Rightarrow> string option" where
  "group m i = map_of (m_groups m) i"

fun alts :: "re list \<Rightarrow> re" where
  "alts [] = Cls (COneOf [])"
| "alts [r] = r"
| "alts (r # rs) = Alt r (alts rs)"

fun cats :: "re list \<Rightarrow> re" where
  "cats [] = Eps"
| "cats [r] = r"
| "cats (r # rs) = Cat r (cats rs)"

definition words :: "string list \<Rightarrow> re" where
  "words ws = alts (map Lit ws)"

definition plus_re :: "re \<Rightarrow> re" where
  "plus_re r = Cat r (Star r)"

text \<open>
  \<open>re.finditer\<close>: successive non-overlapping matches. After an empty match the scan stays
  where it is and asks for a non-empty match there (\<open>must_advance\<close> in the C engine).
\<close>

function finditer :: "re \<Rightarrow> bool \<Rightarrow> bool \<Rightarrow> string \<Rightarrow> string \<Rightarrow> rmatch list" where
  "finditer r ic must_advance pre s =
     (case filter (\<lambda>st. \<not> must_advance \<or> length (fst (snd st)) < length s)
                  (ms r ic (prev_char pre, s, [])) of
        [] \<Rightarrow> (case s of [] \<Rightarrow> [] | x # xs \<Rightarrow> finditer r ic False (pre @ [x]) xs)
      | st # _ \<Rightarrow>
          (let m = mk_match pre s st; k = length (m_text m)
           in if k = 0 then (if must_advance then [m] else m # finditer r ic True pre s)
              else m # finditer r ic False (pre @ take k s) (drop k s)))"
  by pat_completeness auto
termination
  by (relation "measure (\<lambda>(r, ic, adv, pre, s). 2 * length s + (if adv then 0 else 1))")
     (auto simp: mk_match_def)

declare finditer.simps [simp del]

text \<open>\<open>re.findall\<close> for a pattern without groups: the matched texts.\<close>

definition re_findall :: "re \<Rightarrow> bool \<Rightarrow> string \<Rightarrow> string list" where
  "re_findall r ic s = map m_text (finditer r ic False [] s)"

text \<open>\<open>re.sub(pattern, repl, s)\<close> for a replacement text without group references.\<close>

fun sub_build :: "string \<Rightarrow> nat \<Rightarrow> string \<Rightarrow> rmatch list \<Rightarrow> string" where
  "sub_build repl pos s [] = drop pos s"
| "sub_build repl pos s (m # rest) =
     take (length (m_pre m) - pos) (drop pos s) @ repl
       @ sub_build repl (length (m_pre m) + length (m_text m)) s rest"

definition re_sub :: "re \<Rightarrow> bool \<Rightarrow> string \<Rightarrow> string \<Rightarrow> string" where
  "re_sub r ic repl s = sub_build repl 0 s (finditer r ic False [] s)"

section \<open>Python built-ins used by the code\<close>

datatype error = ValueError | OverflowError | KeyError | TypeError | OSError

text \<open>Python integers are unbounded: type \<open>int\<close>.\<close>

definition digit_val :: "char \<Rightarrow> int" where
  "digit_val c = (case map_of (zip ''0123456789'' [0, 1, 2, 3, 4, 5, 6, 7, 8, 9]) c of
       Some v \<Rightarrow> v | None \<Rightarrow> 0)"

definition digit_char :: "int \<Rightarrow> char" where
  "digit_char n = ''0123456789'' ! nat (n mod 10)"

definition int_of_digits :: "string \<Rightarrow> int" where
  "int_of_digits ds = foldl (\<lambda>acc c. 10 * acc + digit_val c) 0 ds"

text \<open>\<open>int(s)\<close> on the digit strings the patterns capture; anything else is a ValueError.\<close>

definition py_int :: "string \<Rightarrow> error + int" where
  "py_int s = (if s \<noteq> [] \<and> list_all is_digit s then Inr (int_of_digits s) else Inl ValueError)"

text \<open>\<open>str(n)\<close> for an integer.\<close>

function digits_of :: "int \<Rightarrow> string" where
  "digits_of n = (if n < 10 then [digit_char n] else digits_of (n div 10) @ [digit_char n])"
  by pat_completeness auto
termination
  by (relation "measure nat") auto

declare digits_of.simps [simp del]

definition str_int :: "int \<Rightarrow> string" where
  "str_int i = (if i < 0 then CHR ''-'' # digits_of (- i) else digits_of i)"

text \<open>\<open>sep.join(xs)\<close>, \<open>s.split()\<close>, \<open>s.strip()\<close>, \<open>s.replace(old, new)\<close>, \<open>s.capitalize()\<close>.\<close>

fun join :: "string \<Rightarrow> string list \<Rightarrow> string" where
  "join sep [] = []"
| "join sep [x] = x"
| "join sep (x # xs) = x @ sep @ join sep xs"

fun split_ws :: "string \<Rightarrow> string \<Rightarrow> string list" where
  "split_ws cur [] = (if cur = [] then [] else [cur])"
| "split_ws cur (c # cs) =
     (if is_space c then (if cur = [] then split_ws [] cs else cur # split_ws [] cs)
      else split_ws (cur @ [c]) cs)"

definition py_split :: "string \<Rightarrow> string list" where
  "py_split s = split_ws [] s"

definition strip :: "string \<Rightarrow> string" where
  "strip s = rev (dropWhile is_space (rev (dropWhile is_space s)))"

fun starts_with :: "string \<Rightarrow> string \<Rightarrow> bool" where
  "starts_with [] s = True"
| "starts_with (c # cs) [] = False"
| "starts_with (c # cs) (x # xs) = (c = x \<and> starts_with cs xs)"

function replace :: "string \<Rightarrow> string \<Rightarrow> string \<Rightarrow> string" where
  "replace old new s =
     (if old = [] then s
      else if s = [] then []
      else if starts_with old s then new @ replace old new (drop (length old) s)
      else hd s # replace old new (tl s))"
  by pat_completeness auto
termination
  by (relation "measure (\<lambda>(old, new, s). length s)") auto

declare replace.simps [simp del]

definition capitalize :: "string \<Rightarrow> string" where
  "capitalize s = (case s of [] \<Rightarrow> [] | c # cs \<Rightarrow> upper_char c # map lower_char cs)"

section \<open>Calendar dates (\<open>datetime\<close>)\<close>

record date =
  d_year :: int
  d_month :: int
  d_day :: int

definition is_leap :: "int \<Rightarrow> bool" where
  "is_leap y = (y mod 4 = 0 \<and> (y mod 100 \<noteq> 0 \<or> y mod 400 = 0))"

definition days_in_month :: "int \<Rightarrow> int \<Rightarrow> int" where
  "days_in_month y m =
     (if m = 2 then (if is_leap y then 29 else 28)
      else if m = 4 \<or> m = 6 \<or> m = 9 \<or> m = 11 then 30 else 31)"

definition valid_date :: "int \<Rightarrow> int \<Rightarrow> int \<Rightarrow> bool" where
  "valid_date y m d = (1 \<le> y \<and> y \<le> 9999 \<and> 1 \<le> m \<and> m \<le> 12 \<and> 1 \<le> d \<and> d \<le> days_in_month y m)"

text \<open>\<open>datetime(year, month, day)\<close> raises ValueError outside the calendar.\<close>

definition datetime :: "int \<Rightarrow> int \<Rightarrow> int \<Rightarrow> error + date" where
  "datetime y m d =
     (if valid_date y m d then Inr \<lparr>d_year = y, d_month = m, d_day = d\<rparr> else Inl ValueError)"

text \<open>\<open>dt.replace(day=d)\<close> builds a new datetime with the same year and month.\<close>

definition replace_day :: "date \<Rightarrow> int \<Rightarrow> error + date" where
  "replace_day dt d = datetime (d_year dt) (d_month dt) d"

text \<open>\<open>dt - timedelta(days=1)\<close> and \<open>dt + timedelta(days=1)\<close>; OverflowError at the ends of
  the supported range.\<close>

definition minus_one_day :: "date \<Rightarrow> error + date" where
  "minus_one_day dt =
     (if 1 < d_day dt then Inr (dt\<lparr>d_day := d_day dt - 1\<rparr>)
      else if 1 < d_month dt
        then Inr (dt\<lparr>d_month := d_month dt - 1, d_day := days_in_month (d_year dt) (d_month dt - 1)\<rparr>)
      else if 1 < d_year dt then Inr \<lparr>d_year = d_year dt - 1, d_month = 12, d_day = 31\<rparr>
      else Inl OverflowError)"

definition plus_one_day :: "date \<Rightarrow> error + date" where
  "plus_one_day dt =
     (if d_day dt < days_in_month (d_year dt) (d_month dt) then Inr (dt\<lparr>d_day := d_day dt + 1\<rparr>)
      else if d_month dt < 12 then Inr (dt\<lparr>d_month := d_month dt + 1, d_day := 1\<rparr>)
      else if d_year dt < 9999 then Inr \<lparr>d_year = d_year dt + 1, d_month = 1, d_day = 1\<rparr>
      else Inl OverflowError)"

text \<open>\<open>strftime("%Y-%m-%d")\<close> as the C library prints it: month and day on two digits, the
  year with the digits it has (years below 1000 are not padded).\<close>

definition zero_pad :: "nat \<Rightarrow> string \<Rightarrow> string" where
  "zero_pad w s = replicate (w - length s) (CHR ''0'') @ s"

definition strftime :: "date \<Rightarrow> string" where
  "strftime dt = str_int (d_year dt) @ ''-'' @ zero_pad 2 (str_int (d_month dt))
                   @ ''-'' @ zero_pad 2 (str_int (d_day dt))"

definition ebind :: "error + 'a \<Rightarrow> ('a \<Rightarrow> error + 'b) \<Rightarrow> error + 'b" where
  "ebind x f = (case x of Inl e \<Rightarrow> Inl e | Inr v \<Rightarrow> f v)"

text \<open>
  Amounts are Python floats in the code. In the extractor they are modelled by the exact
  decimal value they stand for (type \<open>rat\<close>); the model is the floating-point result as
  long as the numbers stay below \<open>2^53\<close>, and says nothing beyond.

  \<open>float_of_str\<close> is \<open>float(s)\<close> for the only strings the extractor passes to it: the digit
  strings that its patterns capture, \<open>digits\<close> or \<open>digits.digits\<close>. \<open>None\<close> stands for the
  ValueError of a string that is not of this form; the other spellings that Python accepts
  (signs, exponents, surrounding blanks) are never captured by the patterns.
  \<open>round2\<close> is \<open>round(x, 2)\<close>: two decimals, halves to even.
\<close>

definition float_of_str :: "string \<Rightarrow> rat option" where
  "float_of_str s =
     (let ip = takeWhile is_digit s; rest = dropWhile is_digit s
      in if rest = [] then (if ip = [] then None else Some (of_int (int_of_digits ip)))
         else if hd rest = CHR ''.'' \<and> list_all is_digit (tl rest) \<and> (ip \<noteq> [] \<or> tl rest \<noteq> [])
           then Some (of_int (int_of_digits ip)
                      + of_int (int_of_digits (tl rest)) / 10 ^ length (tl rest))
         else None)"

definition round_half_even :: "rat \<Rightarrow> int" where
  "round_half_even x =
     (let f = \<lfloor>x\<rfloor>; r = x - of_int f
      in if r < 1 / 2 then f else if 1 / 2 < r then f + 1 else if even f then f else f + 1)"

definition round2 :: "rat \<Rightarrow> rat" where
  "round2 x = of_int (round_half_even (x * 100)) / 100"

section \<open>data_extractor.py\<close>

definition digit :: re where
  "digit = Cls CDigit"

definition spaces :: re where
  "spaces = Star (Cls CSpace)"

definition spaces1 :: re where
  "spaces1 = plus_re (Cls CSpace)"

text \<open>\<open>\d+(?:,\d{3})*(?:\.\d{2})?\<close>\<close>

definition money :: re where
  "money = cats [plus_re digit, Star (Cat (Lit '','') (Rep 3 3 digit)), Opt (Cat (Lit ''.'') (Rep 2 2 digit))]"

text \<open>\<open>\d+(?:\.\d+)?\<close>\<close>

definition decimal :: re where
  "decimal = Cat (plus_re digit) (Opt (Cat (Lit ''.'') (plus_re digit)))"

definition profit_patterns :: "re list" where
  "profit_patterns =
     [cats [WordB, Grp 1 (words [''profit'', ''gained'', ''earned'', ''received'', ''income'',
                                 ''revenue'', ''made'', ''won'']), WordB],
      cats [WordB, Grp 1 (words [''in'', ''plus'', ''positive'']), WordB]]"

definition loss_patterns :: "re list" where
  "loss_patterns =
     [cats [WordB, Grp 1 (words [''loss'', ''lost'', ''spent'', ''expense'', ''paid'', ''cost'',
                                 ''negative'', ''minus'']), WordB],
      cats [WordB, Grp 1 (words [''out'', ''down'']), WordB]]"

text \<open>\<open>\$?(money)\b|\b(money)\s*(?:dollars?|USD|rs|rupees?)\<close>\<close>

definition amount_pattern :: re where
  "amount_pattern =
     Alt (cats [Opt (Lit ''$''), Grp 1 money, WordB])
         (cats [WordB, Grp 2 money, spaces,
                alts [Cat (Lit ''dollar'') (Opt (Lit ''s'')), Lit ''USD'', Lit ''rs'',
                      Cat (Lit ''rupee'') (Opt (Lit ''s''))]])"

definition month_words :: "string list" where
  "month_words = [''january'', ''february'', ''march'', ''april'', ''may'', ''june'', ''july'',
                  ''august'', ''september'', ''october'', ''november'', ''december'']"

definition ordinal_suffix :: re where
  "ordinal_suffix = Opt (words [''st'', ''nd'', ''rd'', ''th''])"

definition date_patterns :: "re list" where
  "date_patterns =
     [cats [WordB, Grp 1 (Rep 1 2 digit), Cls (COneOf ''/-''), Grp 2 (Rep 1 2 digit),
            Cls (COneOf ''/-''), Grp 3 (Rep 2 4 digit), WordB],
      cats [WordB, Grp 1 (words month_words), spaces1, Grp 2 (Rep 1 2 digit), ordinal_suffix,
            Opt (Lit '',''), spaces1, Grp 3 (Rep 2 4 digit), WordB],
      cats [WordB, Grp 1 (Rep 1 2 digit), ordinal_suffix, spaces1, Grp 2 (words month_words),
            spaces1, Grp 3 (Rep 2 4 digit), WordB],
      cats [WordB, Grp 1 (words [''today'', ''yesterday'', ''tomorrow'']), WordB]]"

definition month_names :: "(string \<times> int) list" where
  "month_names = zip month_words [1, 2, 3, 4, 5, 6, 7, 8, 9, 10, 11, 12]"

text \<open>A group that did not take part in the match reads as the empty string (\<open>findall\<close>) or as
  \<open>None\<close> (\<open>match.group\<close>); both are falsy.\<close>

definition grp :: "rmatch \<Rightarrow> nat \<Rightarrow> string" where
  "grp m i = (case group m i of None \<Rightarrow> [] | Some s \<Rightarrow> s)"

subsection \<open>\<open>_extract_type\<close>\<close>

definition extract_type_of :: "string \<Rightarrow> string" where
  "extract_type_of text =
     (if list_ex (\<lambda>pattern. re_search pattern True text \<noteq> None) profit_patterns then ''profit''
      else if list_ex (\<lambda>pattern. re_search pattern True text \<noteq> None) loss_patterns then ''loss''
      else ''loss'')"

subsection \<open>\<open>_normalize_number_words\<close>\<close>

definition units :: "(string \<times> int) list" where
  "units = [(''zero'', 0), (''one'', 1), (''two'', 2), (''three'', 3), (''four'', 4), (''five'', 5),
            (''six'', 6), (''seven'', 7), (''eight'', 8), (''nine'', 9), (''ten'', 10),
            (''eleven'', 11), (''twelve'', 12), (''thirteen'', 13), (''fourteen'', 14),
            (''fifteen'', 15), (''sixteen'', 16), (''seventeen'', 17), (''eighteen'', 18),
            (''nineteen'', 19)]"

definition tens :: "(string \<times> int) list" where
  "tens = [(''twenty'', 20), (''thirty'', 30), (''forty'', 40), (''fifty'', 50),
           (''sixty'', 60), (''seventy'', 70), (''eighty'', 80), (''ninety'', 90)]"

definition scales :: "(string \<times> int) list" where
  "scales = [(''hundred'', 100), (''thousand'', 1000), (''lakh'', 100000), (''crore'', 10000000)]"

text \<open>The \<open>while\<close> loop of \<open>convert_number_phrase\<close>, with its variables \<open>current\<close>, \<open>total\<close> (here \<open>tot\<close>)
  and \<open>i\<close>; the last equation's final branch is the \<open>break\<close>.\<close>

fun convert_loop :: "string list \<Rightarrow> int \<Rightarrow> int \<Rightarrow> nat \<Rightarrow> int \<times> nat" where
  "convert_loop [] current tot i = (tot + current, i)"
| "convert_loop (word # rest) current tot i =
     (case map_of units word of
        Some u \<Rightarrow> convert_loop rest (current + u) tot (i + 1)
      | None \<Rightarrow>
         (case map_of tens word of
            Some t \<Rightarrow> convert_loop rest (current + t) tot (i + 1)
          | None \<Rightarrow>
             if word = ''and'' then convert_loop rest current tot (i + 1)
             else (case map_of scales word of
                     Some scale \<Rightarrow>
                       convert_loop rest 0 (tot + (if current = 0 then 1 else current) * scale) (i + 1)
                   | None \<Rightarrow> (tot + current, i))))"

definition convert_number_phrase :: "string list \<Rightarrow> int \<times> nat" where
  "convert_number_phrase tokens = convert_loop tokens 0 0 0"

definition starts_number :: "string \<Rightarrow> bool" where
  "starts_number word =
     (map_of units word \<noteq> None \<or> map_of tens word \<noteq> None \<or> map_of scales word \<noteq> None
      \<or> word = ''and'')"

text \<open>\<open>[a-zA-Z]+|\d+|%|\S\<close>\<close>

definition token_pattern :: re where
  "token_pattern = alts [plus_re (Cls CAlpha), plus_re digit, Lit ''%'', Cls CNonSpace]"

text \<open>The \<open>while\<close> loop of \<open>replace_sequences\<close> over \<open>tokens[i:]\<close>, building \<open>out\<close>.\<close>

function replace_loop :: "string list \<Rightarrow> string list \<Rightarrow> string list" where
  "replace_loop [] out = out"
| "replace_loop (t # ts) out =
     (if starts_number (lower t)
      then (case convert_number_phrase (map lower (t # ts)) of
              (number, consumed) \<Rightarrow>
                if 0 < consumed then replace_loop (drop consumed (t # ts)) (out @ [str_int number])
                else replace_loop ts (out @ [t]))
      else replace_loop ts (out @ [t]))"
  by pat_completeness auto
termination
  by (relation "measure (\<lambda>(ts, out). length ts)") auto

definition replace_sequences :: "string \<Rightarrow> string" where
  "replace_sequences text_in =
     replace '' %'' ''%'' (join '' '' (replace_loop (re_findall token_pattern False text_in) []))"

definition normalize_number_words :: "string \<Rightarrow> string" where
  "normalize_number_words text = replace_sequences text"

subsection \<open>\<open>_extract_amount\<close>\<close>

text \<open>\<open>(?:profit|loss).*?(?:is|of|at)\s*(decimal)\s*%|(decimal)\s*%\s*(?:profit|loss)\<close>\<close>

definition percentage_pattern :: re where
  "percentage_pattern =
     Alt (cats [words [''profit'', ''loss''], LStar (Cls CAny), words [''is'', ''of'', ''at''],
                spaces, Grp 1 decimal, spaces, Lit ''%''])
         (cats [Grp 2 decimal, spaces, Lit ''%'', spaces, words [''profit'', ''loss'']])"

definition investment_patterns :: "re list" where
  "investment_patterns =
     [cats [Lit ''invested'', spaces1, Grp 1 money],
      cats [Lit ''investment'', spaces1, words [''of'', ''is''], spaces1, Grp 1 money],
      cats [Lit ''base'', spaces1, words [''of'', ''is''], spaces1, Grp 1 money],
      cats [Lit ''capital'', spaces1, words [''of'', ''is''], spaces1, Grp 1 money]]"

definition remove_commas :: "string \<Rightarrow> string" where
  "remove_commas s = filter (\<lambda>c. c \<noteq> CHR '','') s"

text \<open>The loop over \<open>investment_patterns\<close>: the first pattern that matches and whose number
  parses gives the base.\<close>

fun find_base :: "re list \<Rightarrow> string \<Rightarrow> rat option" where
  "find_base [] normalized = None"
| "find_base (pattern # rest) normalized =
     (case re_search pattern True normalized of
        None \<Rightarrow> find_base rest normalized
      | Some inv_match \<Rightarrow>
          (case float_of_str (remove_commas (grp inv_match 1)) of
             Some base_amount \<Rightarrow> Some base_amount
           | None \<Rightarrow> find_base rest normalized))"

text \<open>\<open>matches = re.findall(amount_pattern, normalized)\<close>, then \<open>matches[0]\<close> when there is one.\<close>

definition first_match :: "re \<Rightarrow> bool \<Rightarrow> string \<Rightarrow> rmatch option" where
  "first_match r ic s = (case finditer r ic False [] s of [] \<Rightarrow> None | m # _ \<Rightarrow> Some m)"

definition first_amount :: "string \<Rightarrow> rat option" where
  "first_amount normalized =
     (case first_match amount_pattern True normalized of
        None \<Rightarrow> None
      | Some m \<Rightarrow>
          float_of_str (remove_commas (if grp m 1 \<noteq> [] then grp m 1 else grp m 2)))"

definition extract_amount :: "string \<Rightarrow> error + rat" where
  "extract_amount text =
     (let text_lower = lower text;
          normalized = normalize_number_words text_lower;
          regular = (case first_amount normalized of Some a \<Rightarrow> Inr a | None \<Rightarrow> Inr 0)
      in case re_search percentage_pattern True normalized of
           Some percentage_match \<Rightarrow>
             (case float_of_str (if grp percentage_match 1 \<noteq> [] then grp percentage_match 1
                                 else grp percentage_match 2) of
                None \<Rightarrow> Inl ValueError
              | Some percentage \<Rightarrow>
                  (case (case find_base investment_patterns normalized of
                           Some b \<Rightarrow> Some b
                         | None \<Rightarrow> first_amount normalized) of
                     Some base_amount \<Rightarrow> Inr (round2 (base_amount * (percentage / 100)))
                   | None \<Rightarrow> regular))
         | None \<Rightarrow> regular)"

subsection \<open>\<open>_extract_date\<close>\<close>

definition fix_year :: "int \<Rightarrow> int" where
  "fix_year year = (if year < 100 then year + (if year < 50 then 2000 else 1900) else year)"

text \<open>\<open>datetime(int(year), int(a), int(b))\<close> inside a \<open>try\<close>: a failing \<open>int\<close> or an invalid
  date both surface as ValueError.\<close>

definition try_datetime :: "int \<Rightarrow> string \<Rightarrow> string \<Rightarrow> error + date" where
  "try_datetime year a b =
     ebind (py_int a) (\<lambda>m. ebind (py_int b) (\<lambda>d. datetime year m d))"

text \<open>The numeric branch: \<open>month, day, year = match.groups()\<close>; month/day/year is tried first,
  day/month/year second; \<open>None\<close> when both raise (\<open>pass\<close>).\<close>

definition numeric_date :: "string \<Rightarrow> string \<Rightarrow> string \<Rightarrow> error + date option" where
  "numeric_date month day year =
     ebind (py_int year) (\<lambda>y.
       case try_datetime (fix_year y) month day of
         Inr date_obj \<Rightarrow> Inr (Some date_obj)
       | Inl _ \<Rightarrow>
          (case try_datetime (fix_year y) day month of
             Inr date_obj \<Rightarrow> Inr (Some date_obj)
           | Inl _ \<Rightarrow> Inr None))"

text \<open>The loop over \<open>date_patterns[1:3]\<close> (month name and day, in either order).\<close>

fun month_name_dates :: "re list \<Rightarrow> string \<Rightarrow> error + date option" where
  "month_name_dates [] text_lower = Inr None"
| "month_name_dates (pattern # rest) text_lower =
     (case re_search pattern False text_lower of
        None \<Rightarrow> month_name_dates rest text_lower
      | Some m \<Rightarrow>
          (case (case map_of month_names (lower (grp m 1)) of
                   Some month \<Rightarrow> Some (month, grp m 2)
                 | None \<Rightarrow>
                    (case map_of month_names (lower (grp m 2)) of
                       Some month \<Rightarrow> Some (month, grp m 1)
                     | None \<Rightarrow> None)) of
             None \<Rightarrow> month_name_dates rest text_lower
           | Some (month, day_str) \<Rightarrow>
               ebind (py_int day_str) (\<lambda>day.
               ebind (py_int (grp m 3)) (\<lambda>year.
                 case datetime (fix_year year) month day of
                   Inr date_obj \<Rightarrow> Inr (Some date_obj)
                 | Inl _ \<Rightarrow> month_name_dates rest text_lower))))"

definition word_re :: "string \<Rightarrow> re" where
  "word_re w = cats [WordB, Lit w, WordB]"

text \<open>\<open>now\<close> is the value of \<open>datetime.now()\<close>.\<close>

definition extract_date :: "string \<Rightarrow> date \<Rightarrow> error + string" where
  "extract_date text now =
     (let text_lower = lower text; today = now
      in if re_search (word_re ''today'') False text_lower \<noteq> None then Inr (strftime today)
         else if re_search (word_re ''yesterday'') False text_lower \<noteq> None
           then ebind (replace_day today (d_day today - 1)) (\<lambda>yesterday. Inr (strftime yesterday))
         else if re_search (word_re ''tomorrow'') False text_lower \<noteq> None
           then ebind (replace_day today (d_day today + 1)) (\<lambda>tomorrow. Inr (strftime tomorrow))
         else
           ebind (case re_search (date_patterns ! 0) False text of
                    None \<Rightarrow> Inr None
                  | Some m \<Rightarrow> numeric_date (grp m 1) (grp m 2) (grp m 3))
             (\<lambda>numeric.
                case numeric of
                  Some date_obj \<Rightarrow> Inr (strftime date_obj)
                | None \<Rightarrow>
                   ebind (month_name_dates [date_patterns ! 1, date_patterns ! 2] text_lower)
                     (\<lambda>named.
                        case named of
                          Some date_obj \<Rightarrow> Inr (strftime date_obj)
                        | None \<Rightarrow> Inr (strftime now))))"

subsection \<open>\<open>_extract_details\<close>\<close>

text \<open>The chain of \<open>re.sub\<close> calls of the \<open>else\<close> branch, in the order of the source.\<close>

definition strip_mentions :: "string \<Rightarrow> string" where
  "strip_mentions details =
     (let d1 = re_sub amount_pattern True [] details;
          d2 = re_sub (cats [decimal, spaces, Lit ''%'']) True [] d1;
          d3 = foldl (\<lambda>d pattern. re_sub pattern True [] d) d2 date_patterns;
          d4 = re_sub (cats [WordB, Grp 1 (words [''profit'', ''loss'', ''gained'', ''earned'', ''received'',
                                                  ''spent'', ''paid'', ''lost'']),
                             spaces1, words [''is'', ''of'', ''at''], WordB]) True [] d3;
          d5 = re_sub (cats [WordB, Grp 1 (words [''today'', ''yesterday'', ''tomorrow'']), WordB]) True [] d4;
          d6 = re_sub (cats [WordB, Grp 1 (words [''and'', ''is'', ''nothing'', ''nothing'']), WordB]) True [] d5
      in strip (join '' '' (py_split d6)))"

definition extract_details :: "string \<Rightarrow> string \<Rightarrow> rat \<Rightarrow> string" where
  "extract_details text transaction_type amount =
     (let text_lower = lower text;
          percentage_match = re_search percentage_pattern True text_lower;
          investment_match = re_search (cats [Lit ''invested'', spaces1, Grp 1 money]) True text_lower;
          details =
            (case (percentage_match, investment_match) of
               (Some pm, Some im) \<Rightarrow>
                 ''Investment of '' @ remove_commas (grp im 1) @ '' with ''
                   @ (if grp pm 1 \<noteq> [] then grp pm 1 else grp pm 2) @ ''% '' @ transaction_type
             | _ \<Rightarrow> strip_mentions text)
      in if details = [] \<or> length details < 3 then capitalize transaction_type @ '' transaction''
         else details)"

subsection \<open>\<open>extract\<close>\<close>

record fin_record =
  r_type :: string
  r_amount :: rat
  r_date :: string
  r_details :: string

definition extract_record :: "string \<Rightarrow> date \<Rightarrow> error + fin_record" where
  "extract_record text now =
     (let text_lower = strip (lower text);
          transaction_type = extract_type_of text_lower
      in ebind (extract_amount text) (\<lambda>amount.
         ebind (extract_date text_lower now) (\<lambda>date.
           Inr \<lparr>r_type = transaction_type, r_amount = amount, r_date = date,
                r_details = extract_details text transaction_type amount\<rparr>)))"

section \<open>query_analyzer.py\<close>

definition month_pattern :: re where
  "month_pattern = cats [WordB, Grp 1 (words month_words), WordB]"

text \<open>\<open>\b(\d{1,2})[/-](\d{1,2})[/-](\d{2,4})\b|(\d{1,2})(?:st|nd|rd|th)?\s+(month)\s+(\d{2,4})\b\<close>\<close>

definition date_pattern :: re where
  "date_pattern =
     Alt (cats [WordB, Grp 1 (Rep 1 2 digit), Cls (COneOf ''/-''), Grp 2 (Rep 1 2 digit),
                Cls (COneOf ''/-''), Grp 3 (Rep 2 4 digit), WordB])
         (cats [Grp 4 (Rep 1 2 digit), ordinal_suffix, spaces1, Grp 5 (words month_words),
                spaces1, Grp 6 (Rep 2 4 digit), WordB])"

definition relative_date_pattern :: re where
  "relative_date_pattern = cats [WordB, Grp 1 (words [''today'', ''yesterday'', ''tomorrow'']), WordB]"

definition profit_pattern :: re where
  "profit_pattern =
     cats [WordB, Grp 1 (words [''profit'', ''profits'', ''gained'', ''earned'', ''income'',
                                ''revenue'', ''made'', ''earn'']), WordB]"

definition loss_pattern :: re where
  "loss_pattern =
     cats [WordB, Grp 1 (words [''loss'', ''losses'', ''lost'', ''spent'', ''expense'', ''expenses'',
                                ''spend'']), WordB]"

definition amount_query_pattern :: re where
  "amount_query_pattern =
     cats [WordB, Grp 1 (words [''how much'', ''what'', ''total'', ''amount'', ''sum'', ''did'', ''have'']),
           WordB]"

text \<open>\<open>\b(20\d{2})\b\<close> and \<open>\b(report|summary|overview|total)\b\<close>\<close>

definition year_pattern :: re where
  "year_pattern = cats [WordB, Grp 1 (Cat (Lit ''20'') (Rep 2 2 digit)), WordB]"

definition report_pattern :: re where
  "report_pattern = cats [WordB, Grp 1 (words [''report'', ''summary'', ''overview'', ''total'']), WordB]"

text \<open>The \<open>params\<close> dictionary: a field is \<open>None\<close> while its key is absent. The key
  \<open>type\<close> can be present with the value \<open>None\<close>, which is \<open>Some None\<close> here.\<close>

record params =
  p_date :: "string option"
  p_type :: "string option option"
  p_month :: "int option"
  p_year :: "int option"

definition empty_params :: params where
  "empty_params = \<lparr>p_date = None, p_type = None, p_month = None, p_year = None\<rparr>"

subsection \<open>\<open>_extract_date_from_match\<close>\<close>

definition qa_numeric_date :: "string \<Rightarrow> string \<Rightarrow> string \<Rightarrow> error + date option" where
  "qa_numeric_date month day year =
     ebind (py_int year) (\<lambda>y.
       case ebind (py_int month) (\<lambda>m. ebind (py_int day) (\<lambda>d. datetime (fix_year y) m d)) of
         Inr date_obj \<Rightarrow> Inr (Some date_obj)
       | Inl _ \<Rightarrow>
          (case ebind (py_int day) (\<lambda>m. ebind (py_int month) (\<lambda>d. datetime (fix_year y) m d)) of
             Inr date_obj \<Rightarrow> Inr (Some date_obj)
           | Inl _ \<Rightarrow> Inr None))"

definition qa_month_name_date :: "string \<Rightarrow> string \<Rightarrow> string \<Rightarrow> error + date option" where
  "qa_month_name_date day_str month_str year_str =
     (let month_name = lower month_str
      in ebind (py_int day_str) (\<lambda>day.
         ebind (py_int year_str) (\<lambda>year.
           case map_of month_names month_name of
             None \<Rightarrow> Inr None
           | Some month \<Rightarrow>
               (case datetime (fix_year year) month day of
                  Inr date_obj \<Rightarrow> Inr (Some date_obj)
                | Inl _ \<Rightarrow> Inr None))))"

definition extract_date_from_match :: "rmatch \<Rightarrow> error + string option" where
  "extract_date_from_match m =
     ebind (if grp m 1 \<noteq> [] \<and> grp m 2 \<noteq> [] \<and> grp m 3 \<noteq> []
            then qa_numeric_date (grp m 1) (grp m 2) (grp m 3) else Inr None)
       (\<lambda>numeric.
          case numeric of
            Some date_obj \<Rightarrow> Inr (Some (strftime date_obj))
          | None \<Rightarrow>
             ebind (if grp m 5 \<noteq> [] \<and> grp m 6 \<noteq> []
                    then qa_month_name_date (grp m 4) (grp m 5) (grp m 6) else Inr None)
               (\<lambda>named. Inr (map_option strftime named)))"

subsection \<open>\<open>_parse_query\<close>\<close>

text \<open>\<open>if re.search(profit_pattern, query): params['type'] = 'profit'
  elif re.search(loss_pattern, query): params['type'] = 'loss'\<close>\<close>

definition asked_type :: "string \<Rightarrow> string option" where
  "asked_type query =
     (if re_search profit_pattern False query \<noteq> None then Some ''profit''
      else if re_search loss_pattern False query \<noteq> None then Some ''loss''
      else None)"

definition set_asked_type :: "string \<Rightarrow> params \<Rightarrow> params" where
  "set_asked_type query ps = (case asked_type query of Some t \<Rightarrow> ps\<lparr>p_type := Some (Some t)\<rparr> | None \<Rightarrow> ps)"

text \<open>Each rule takes and returns the pair \<open>(query_type, params)\<close>.\<close>

definition rule_relative :: "string \<Rightarrow> date \<Rightarrow> rmatch option \<Rightarrow> string \<times> params \<Rightarrow> error + string \<times> params" where
  "rule_relative query now relative_date_match st =
     (case relative_date_match of
        None \<Rightarrow> Inr st
      | Some m \<Rightarrow>
          (let relative_date = lower (grp m 1); today = now
           in ebind (if relative_date = ''today'' then Inr today
                     else if relative_date = ''yesterday'' then minus_one_day today
                     else if relative_date = ''tomorrow'' then plus_one_day today
                     else Inr today)
                (\<lambda>d. Inr (''date_query'', set_asked_type query ((snd st)\<lparr>p_date := Some (strftime d)\<rparr>)))))"

definition rule_month :: "string \<Rightarrow> date \<Rightarrow> rmatch option \<Rightarrow> rmatch option \<Rightarrow> string \<times> params \<Rightarrow> error + string \<times> params" where
  "rule_month query now month_match relative_date_match st =
     (case month_match of
        None \<Rightarrow> Inr st
      | Some m \<Rightarrow>
          if relative_date_match \<noteq> None then Inr st
          else
            (case map_of month_names (lower (grp m 1)) of
               None \<Rightarrow> Inl KeyError
             | Some month \<Rightarrow>
                 ebind (case re_search year_pattern False query of
                          Some year_match \<Rightarrow> py_int (grp year_match 1)
                        | None \<Rightarrow> Inr (d_year now))
                   (\<lambda>year.
                      let ps = (snd st)\<lparr>p_month := Some month, p_year := Some year\<rparr>
                      in case asked_type query of
                           Some t \<Rightarrow> Inr (''type_query'', ps\<lparr>p_type := Some (Some t)\<rparr>)
                         | None \<Rightarrow> Inr (''monthly_report'', ps))))"

definition rule_date :: "string \<Rightarrow> rmatch option \<Rightarrow> rmatch option \<Rightarrow> string \<times> params \<Rightarrow> error + string \<times> params" where
  "rule_date query date_match relative_date_match st =
     (case date_match of
        None \<Rightarrow> Inr st
      | Some m \<Rightarrow>
          if relative_date_match \<noteq> None then Inr st
          else
            ebind (extract_date_from_match m)
              (\<lambda>date_str.
                 case date_str of
                   None \<Rightarrow> Inr st
                 | Some ds \<Rightarrow>
                     if ds = [] then Inr st
                     else Inr (''date_query'', set_asked_type query ((snd st)\<lparr>p_date := Some ds\<rparr>))))"

definition rule_amount :: "string \<Rightarrow> date \<Rightarrow> string \<times> params \<Rightarrow> string \<times> params" where
  "rule_amount query now st =
     (if re_search amount_query_pattern False query \<noteq> None \<and> fst st \<noteq> ''unknown'' then st
      else if re_search amount_query_pattern False query \<noteq> None \<and> fst st = ''unknown''
        then (if re_search (word_re ''today'') True query \<noteq> None
              then (''date_query'', (snd st)\<lparr>p_date := Some (strftime now)\<rparr>)
              else (''summary'', (snd st)\<lparr>p_type := Some None\<rparr>))
      else st)"

definition rule_report :: "string \<Rightarrow> rmatch option \<Rightarrow> rmatch option \<Rightarrow> rmatch option \<Rightarrow> string \<times> params \<Rightarrow> string \<times> params" where
  "rule_report query month_match date_match relative_date_match st =
     (if re_search report_pattern False query \<noteq> None \<and> fst st = ''unknown''
      then (if re_search profit_pattern False query \<noteq> None
            then (''summary'', (snd st)\<lparr>p_type := Some (Some ''profit'')\<rparr>)
            else if re_search loss_pattern False query \<noteq> None
            then (''summary'', (snd st)\<lparr>p_type := Some (Some ''loss'')\<rparr>)
            else if month_match = None \<and> date_match = None \<and> relative_date_match = None
            then (''summary'', (snd st)\<lparr>p_type := Some None\<rparr>)
            else st)
      else st)"

definition parse_query :: "string \<Rightarrow> date \<Rightarrow> error + string \<times> params" where
  "parse_query query now =
     (let relative_date_match = re_search relative_date_pattern True query;
          month_match = re_search month_pattern True query;
          date_match = re_search date_pattern True query
      in ebind (rule_relative query now relative_date_match (''unknown'', empty_params)) (\<lambda>st1.
         ebind (rule_month query now month_match relative_date_match st1) (\<lambda>st2.
         ebind (rule_date query date_match relative_date_match st2) (\<lambda>st3.
           Inr (rule_report query month_match date_match relative_date_match
                  (rule_amount query now st3))))))"

text \<open>\<open>analyze\<close> lower-cases the question before it parses it.\<close>

definition classify :: "string \<Rightarrow> date \<Rightarrow> error + string \<times> params" where
  "classify query now = parse_query (lower query) now"

section \<open>csv_manager.py\<close>

text \<open>
  The CSV file is modelled by the rows that \<open>csv.reader\<close> returns for it, \<open>None\<close> while the
  file does not exist; the \<open>csv\<close> module is taken to write a row of cells and to read it back
  unchanged. Reading an existing file succeeds; appending to it may fail (\<open>append_ok\<close>).

  The amounts are floats. How Python prints a float (\<open>str\<close>, \<open>repr\<close>, the csv writer) and
  how it reads one (\<open>float\<close>) are parameters of the functions below, \<open>str_f\<close> and
  \<open>float_f\<close>; \<open>float_f s = None\<close> stands for the ValueError of \<open>float(s)\<close>. The theorems
  use one fact about them, which Python guarantees for every float but NaN:
  \<open>float(repr(x)) == x\<close>.
\<close>

type_synonym csv_file = "string list list option"

datatype pyval = PNone | PStr string | PFloat rat

text \<open>A Python dictionary with string keys; the first pair of a key is its entry.\<close>

type_synonym pydict = "(string \<times> pyval) list"

definition dict_get :: "pydict \<Rightarrow> string \<Rightarrow> pyval \<Rightarrow> pyval" where
  "dict_get d k dflt = (case map_of d k of None \<Rightarrow> dflt | Some v \<Rightarrow> v)"

definition py_str :: "(rat \<Rightarrow> string) \<Rightarrow> pyval \<Rightarrow> string" where
  "py_str str_f v = (case v of PNone \<Rightarrow> ''None'' | PStr s \<Rightarrow> s | PFloat q \<Rightarrow> str_f q)"

text \<open>What the csv writer puts in a cell: \<open>None\<close> is written as the empty string.\<close>

definition cell_str :: "(rat \<Rightarrow> string) \<Rightarrow> pyval \<Rightarrow> string" where
  "cell_str str_f v = (case v of PNone \<Rightarrow> [] | PStr s \<Rightarrow> s | PFloat q \<Rightarrow> str_f q)"

definition expected_header :: "string list" where
  "expected_header = [''type'', ''amount'', ''date'', ''details'']"

subsection \<open>\<open>_ensure_file_exists\<close>\<close>

definition ensure_file_exists :: "csv_file \<Rightarrow> csv_file" where
  "ensure_file_exists f =
     (case f of
        None \<Rightarrow> Some [expected_header]
      | Some rows \<Rightarrow>
          (case rows of
             [] \<Rightarrow> Some [expected_header]
           | first # _ \<Rightarrow>
               if map (\<lambda>column. lower (strip column)) first \<noteq> expected_header
               then Some (expected_header # rows)
               else Some rows))"

subsection \<open>\<open>read_all_records\<close>\<close>

text \<open>A row of \<open>csv.DictReader\<close>: the cells under the field names, \<open>None\<close> for a missing cell;
  of two equal field names the later one counts.\<close>

definition dict_row :: "string list \<Rightarrow> string list \<Rightarrow> pydict" where
  "dict_row fieldnames row =
     rev (zip fieldnames (map PStr row @ replicate (length fieldnames - length row) PNone))"

text \<open>The \<open>for row in reader\<close> loop. Empty rows are skipped by the reader; an exception
  (\<open>KeyError\<close>, \<open>TypeError\<close> or \<open>ValueError\<close> of \<open>float(row['amount'])\<close>) ends the loop and
  the records read so far are returned.\<close>

fun read_loop :: "(string \<Rightarrow> rat option) \<Rightarrow> string list \<Rightarrow> string list list \<Rightarrow> pydict list" where
  "read_loop float_f fieldnames [] = []"
| "read_loop float_f fieldnames (row # rest) =
     (if row = [] then read_loop float_f fieldnames rest
      else (case map_of (dict_row fieldnames row) ''amount'' of
              Some (PStr s) \<Rightarrow>
                (case float_f s of
                   Some q \<Rightarrow>
                     ((''amount'', PFloat q) # dict_row fieldnames row) # read_loop float_f fieldnames rest
                 | None \<Rightarrow> [])
            | _ \<Rightarrow> []))"

definition read_all_records :: "(string \<Rightarrow> rat option) \<Rightarrow> csv_file \<Rightarrow> pydict list \<times> csv_file" where
  "read_all_records float_f f =
     (let f1 = ensure_file_exists f
      in case f1 of
           None \<Rightarrow> ([], f1)
         | Some rows \<Rightarrow>
             (case rows of
                [] \<Rightarrow> ([], f1)
              | fieldnames # data \<Rightarrow> (read_loop float_f fieldnames data, f1)))"

subsection \<open>\<open>save_record\<close>\<close>

definition record_key :: "(rat \<Rightarrow> string) \<Rightarrow> pydict \<Rightarrow> string \<times> string \<times> string \<times> string" where
  "record_key str_f record =
     (lower (py_str str_f (dict_get record ''type'' (PStr []))),
      py_str str_f (dict_get record ''amount'' (PStr [])),
      py_str str_f (dict_get record ''date'' (PStr [])),
      py_str str_f (dict_get record ''details'' (PStr [])))"

text \<open>\<open>DictWriter.writerow\<close> raises ValueError for a key outside the field names.\<close>

definition writable :: "pydict \<Rightarrow> bool" where
  "writable record = list_all (\<lambda>k. k \<in> set expected_header) (map fst record)"

definition row_of_record :: "(rat \<Rightarrow> string) \<Rightarrow> pydict \<Rightarrow> string list" where
  "row_of_record str_f record = map (\<lambda>k. cell_str str_f (dict_get record k (PStr []))) expected_header"

text \<open>The result is the returned boolean and the file afterwards; every exception inside the
  \<open>try\<close> gives \<open>False\<close>.\<close>

definition save_record ::
  "(rat \<Rightarrow> string) \<Rightarrow> (string \<Rightarrow> rat option) \<Rightarrow> pydict \<Rightarrow> bool \<Rightarrow> csv_file \<Rightarrow> bool \<Rightarrow> bool \<times> csv_file" where
  "save_record str_f float_f record check_duplicates f append_ok =
     (let f1 = ensure_file_exists f;
          (existing_records, f2) = (if check_duplicates then read_all_records float_f f1 else ([], f1))
      in if check_duplicates
            \<and> list_ex (\<lambda>existing. record_key str_f existing = record_key str_f record) existing_records
         then (False, f2)
         else if \<not> append_ok then (False, f2)
         else if \<not> writable record then (False, f2)
         else (True, map_option (\<lambda>rows. rows @ [row_of_record str_f record]) f2))"

text \<open>The dictionary that \<open>extract\<close> returns.\<close>

definition record_dict :: "fin_record \<Rightarrow> pydict" where
  "record_dict r =
     [(''type'', PStr (r_type r)), (''amount'', PFloat (r_amount r)), (''date'', PStr (r_date r)),
      (''details'', PStr (r_details r))]"

section \<open>The ledger as the specification describes it\<close>

text \<open>
  "Persisted shape: a table with columns [type, amount, date, details], header mandatory,
  amount as decimal text." A data row of four cells whose amount can be read stands for
  one record; the stored records are those of the rows after the header.
\<close>

definition record_of_row :: "(string \<Rightarrow> rat option) \<Rightarrow> string list \<Rightarrow> fin_record option" where
  "record_of_row float_f row =
     (case row of
        [t, a, d, x] \<Rightarrow>
          (case float_f a of
             Some q \<Rightarrow> Some \<lparr>r_type = t, r_amount = q, r_date = d, r_details = x\<rparr>
           | None \<Rightarrow> None)
      | _ \<Rightarrow> None)"

definition stored_records :: "(string \<Rightarrow> rat option) \<Rightarrow> csv_file \<Rightarrow> fin_record list" where
  "stored_records float_f f =
     (case f of None \<Rightarrow> [] | Some rows \<Rightarrow> List.map_filter (record_of_row float_f) (tl rows))"

text \<open>A file is a ledger when it is missing or empty, or starts with the header and every
  row after it stands for a record.\<close>

definition wf_file :: "(string \<Rightarrow> rat option) \<Rightarrow> csv_file \<Rightarrow> bool" where
  "wf_file float_f f =
     (case f of
        None \<Rightarrow> True
      | Some rows \<Rightarrow>
          (case rows of
             [] \<Rightarrow> True
           | h # data \<Rightarrow> h = expected_header \<and> list_all (\<lambda>row. record_of_row float_f row \<noteq> None) data))"

text \<open>"A record with the same type (case-insensitive), amount, date, and details."\<close>

definition same_record :: "fin_record \<Rightarrow> fin_record \<Rightarrow> bool" where
  "same_record r e =
     (lower (r_type e) = lower (r_type r) \<and> r_amount e = r_amount r \<and> r_date e = r_date r
      \<and> r_details e = r_details r)"

text \<open>
  A printing of amounts to instantiate \<open>str_f\<close> with: the text Python prints for a float that
  is a whole number of cents, not negative and below \<open>10^16\<close> (\<open>100.0\<close>, \<open>0.25\<close>, \<open>12.5\<close>).
  \<open>float_of_str\<close> reads these texts back.
\<close>

definition str_cents :: "rat \<Rightarrow> string" where
  "str_cents q =
     (let n = \<lfloor>q * 100\<rfloor>; fr = n mod 100
      in digits_of (n div 100) @ ''.''
           @ (if fr mod 10 = 0 then [digit_char (fr div 10)]
              else [digit_char (fr div 10), digit_char (fr mod 10)]))"

section \<open>The specification's wording of two algorithms\<close>

text \<open>
  Numeric date token: "try interpreting as month/day/year first; if invalid as a calendar
  date, retry as day/month/year"; "two-digit years: below 50 is 20xx, else 19xx".
\<close>

definition spec_numeric_date :: "int \<Rightarrow> int \<Rightarrow> int \<Rightarrow> date option" where
  "spec_numeric_date a b y =
     (if valid_date y a b then Some \<lparr>d_year = y, d_month = a, d_day = b\<rparr>
      else if valid_date y b a then Some \<lparr>d_year = y, d_month = b, d_day = a\<rparr>
      else None)"

definition spec_two_digit_year :: "int \<Rightarrow> int" where
  "spec_two_digit_year y = (if y < 50 then 2000 + y else 1900 + y)"

text \<open>
  Spoken numbers: "accumulate unit/tens into a running value; on a scale word, multiply the
  running value (or 1 if it was zero) by the scale and add to a total, then reset the running
  value; final value = total + any trailing running value"; "and" is a no-op connector.
  The state is the pair (running value, total).
\<close>

definition spec_step :: "int \<times> int \<Rightarrow> string \<Rightarrow> int \<times> int" where
  "spec_step st w =
     (case map_of (units @ tens) w of
        Some v \<Rightarrow> (fst st + v, snd st)
      | None \<Rightarrow>
         (case map_of scales w of
            Some scale \<Rightarrow> (0, snd st + (if fst st = 0 then 1 else fst st) * scale)
          | None \<Rightarrow> st))"

definition spec_value :: "string list \<Rightarrow> int" where
  "spec_value ws = (case foldl spec_step (0, 0) ws of (running, tot) \<Rightarrow> tot + running)"

definition number_word :: "string \<Rightarrow> bool" where
  "number_word w = (w \<in> set (map fst (units @ tens @ scales)) \<or> w = ''and'')"

text \<open>Every maximal run of number words, whatever their case, is replaced by the decimal
  text of its value.\<close>

definition number_token :: "string \<Rightarrow> bool" where
  "number_token t = number_word (lower t)"

function spec_replace :: "string list \<Rightarrow> string list" where
  "spec_replace [] = []"
| "spec_replace (t # ts) =
     (if number_token t
      then str_int (spec_value (map lower (takeWhile number_token (t # ts))))
             # spec_replace (dropWhile number_token ts)
      else t # spec_replace ts)"
  by pat_completeness auto
termination
  by (relation "measure length") (auto simp: length_dropWhile_le less_Suc_eq_le)


section \<open>Verified properties\<close>

text \<open>
  C1. The claim is that \<open>extract\<close> returns a record for every text and every current date,
  in particular for texts with "yesterday" or "tomorrow" on the first and last day of a month.
  The code computes yesterday as \<open>today.replace(day=today.day - 1)\<close>, which asks for day 0
  on the first of a month: on 2024-03-01 the text "yesterday" makes \<open>extract\<close> raise
  ValueError instead of returning a record.
\<close>

theorem C1_extract_raises_on_first_of_month:
  "extract_record ''yesterday'' \<lparr>d_year = 2024, d_month = 3, d_day = 1\<rparr> = Inl ValueError"
  by code_simp

text \<open>
  C2. The claim is that "How much loss did I have on 12 August?" is classified as a
  \<open>date_query\<close> for the 12th of August of the current year. The date pattern of the analyzer
  only recognises a day and a month name when a year follows, so the question takes the
  month rule instead: it comes out as a \<open>type_query\<close> for the whole of August, with no date.
\<close>

theorem C2_loss_on_12_august_is_type_query:
  "classify ''How much loss did I have on 12 August?'' now =
     Inr (''type_query'',
          \<lparr>p_date = None, p_type = Some (Some ''loss''), p_month = Some 8, p_year = Some (d_year now)\<rparr>)"
  by code_simp

text \<open>
  C3. The claim is that "Generate a monthly profit/loss report" is classified as a
  \<open>monthly_report\<close> with empty parameters. No rule of the analyzer produces
  \<open>monthly_report\<close> without a month name; the question reaches the report rule, which
  sees the word "profit" and answers with a \<open>summary\<close> filtered to profit records.
\<close>

theorem C3_monthly_report_request_is_profit_summary:
  "classify ''Generate a monthly profit/loss report'' now =
     Inr (''summary'',
          \<lparr>p_date = None, p_type = Some (Some ''profit''), p_month = None, p_year = None\<rparr>)"
  by code_simp

subsection \<open>The rule cascade of \<open>_parse_query\<close>\<close>

lemma ebind_Inr_iff: "ebind x f = Inr r \<longleftrightarrow> (\<exists>v. x = Inr v \<and> f v = Inr r)"
  by (cases x) (simp_all add: ebind_def)

lemma rule_amount_type_query:
  "fst (rule_amount query now st) = ''type_query'' \<Longrightarrow> rule_amount query now st = st"
  by (auto simp: rule_amount_def split: if_splits)

lemma rule_report_type_query:
  "fst (rule_report query mm dm rm st) = ''type_query'' \<Longrightarrow> rule_report query mm dm rm st = st"
  by (auto simp: rule_report_def split: if_splits)

lemma rule_date_type_query:
  "rule_date query dm rm st = Inr st' \<Longrightarrow> fst st' = ''type_query'' \<Longrightarrow> st' = st"
  by (auto simp: rule_date_def ebind_Inr_iff split: option.splits if_splits)

lemma rule_relative_type_query:
  "rule_relative query now rm (''unknown'', ps0) = Inr st' \<Longrightarrow> fst st' \<noteq> ''type_query''"
  by (auto simp: rule_relative_def ebind_Inr_iff Let_def split: option.splits)

lemma rule_month_type_query:
  assumes "rule_month query now mm rm st = Inr st'" "fst st' = ''type_query''" "fst st \<noteq> ''type_query''"
  shows "\<exists>m month year. mm = Some m \<and> map_of month_names (lower (grp m 1)) = Some month
           \<and> p_month (snd st') = Some month \<and> p_year (snd st') = Some year
           \<and> (case re_search year_pattern False query of
                 Some year_match \<Rightarrow> py_int (grp year_match 1) = Inr year
               | None \<Rightarrow> year = d_year now)"
  using assms
  by (auto simp: rule_month_def ebind_Inr_iff Let_def split: option.splits if_splits)

text \<open>
  C10. Whenever \<open>_parse_query\<close> returns \<open>type_query\<close>, the parameters carry a month and a
  year: the month is the one named in the question, the year is the \<open>20xx\<close> year mentioned in
  the question, or the current year when there is none.
\<close>

theorem C10_type_query_has_month_and_year:
  assumes "parse_query query now = Inr (''type_query'', ps)"
  shows "\<exists>m month year. re_search month_pattern True query = Some m
           \<and> map_of month_names (lower (grp m 1)) = Some month
           \<and> p_month ps = Some month \<and> p_year ps = Some year
           \<and> (case re_search year_pattern False query of
                 Some year_match \<Rightarrow> py_int (grp year_match 1) = Inr year
               | None \<Rightarrow> year = d_year now)"
proof -
  let ?rm = "re_search relative_date_pattern True query"
  let ?mm = "re_search month_pattern True query"
  let ?dm = "re_search date_pattern True query"
  from assms obtain st1 st2 st3 where
    s1: "rule_relative query now ?rm (''unknown'', empty_params) = Inr st1" and
    s2: "rule_month query now ?mm ?rm st1 = Inr st2" and
    s3: "rule_date query ?dm ?rm st2 = Inr st3" and
    s4: "rule_report query ?mm ?dm ?rm (rule_amount query now st3) = (''type_query'', ps)"
    by (auto simp: parse_query_def Let_def ebind_Inr_iff)
  from s4 have a: "rule_amount query now st3 = (''type_query'', ps)"
    using rule_report_type_query[of query ?mm ?dm ?rm "rule_amount query now st3"] by simp
  then have b: "st3 = (''type_query'', ps)"
    using rule_amount_type_query[of query now st3] by simp
  with s3 have c: "st2 = (''type_query'', ps)"
    using rule_date_type_query[of query ?dm ?rm st2 st3] by simp
  from s1 have d: "fst st1 \<noteq> ''type_query''" by (rule rule_relative_type_query)
  from rule_month_type_query[OF s2 _ d] c show ?thesis by simp
qed

theorem C10_type_query_witness:
  "parse_query ''show me all profit details for march'' \<lparr>d_year = 2024, d_month = 3, d_day = 1\<rparr>
     = Inr (''type_query'', \<lparr>p_date = None, p_type = Some (Some ''profit''), p_month = Some 3, p_year = Some 2024\<rparr>)
   \<and> (\<exists>m month year. re_search month_pattern True ''show me all profit details for march'' = Some m
           \<and> map_of month_names (lower (grp m 1)) = Some month
           \<and> p_month \<lparr>p_date = None, p_type = Some (Some ''profit''), p_month = Some 3, p_year = Some 2024\<rparr> = Some month
           \<and> p_year \<lparr>p_date = None, p_type = Some (Some ''profit''), p_month = Some 3, p_year = Some 2024\<rparr> = Some year
           \<and> (case re_search year_pattern False ''show me all profit details for march'' of
                 Some year_match \<Rightarrow> py_int (grp year_match 1) = Inr year
               | None \<Rightarrow> year = d_year \<lparr>d_year = 2024, d_month = 3, d_day = 1\<rparr>))"
proof -
  have h: "parse_query ''show me all profit details for march'' \<lparr>d_year = 2024, d_month = 3, d_day = 1\<rparr>
     = Inr (''type_query'', \<lparr>p_date = None, p_type = Some (Some ''profit''), p_month = Some 3, p_year = Some 2024\<rparr>)"
    by code_simp
  from C10_type_query_has_month_and_year[OF h] h show ?thesis by blast
qed


subsection \<open>Numeric dates\<close>

lemma digit_val_le: "digit_val c \<le> 9"
  by (simp add: digit_val_def)

lemma two_digits_lt_100:
  assumes "length y = 2"
  shows "int_of_digits y < 100"
proof -
  from assms obtain c1 c2 where y: "y = [c1, c2]"
    by (cases y; cases "tl y") auto
  have "digit_val c1 \<le> 9" "digit_val c2 \<le> 9" by (rule digit_val_le)+
  then show ?thesis by (simp add: y int_of_digits_def)
qed

lemma py_int_digits: "s \<noteq> [] \<Longrightarrow> list_all is_digit s \<Longrightarrow> py_int s = Inr (int_of_digits s)"
  by (simp add: py_int_def)

lemma datetime_cases:
  "datetime y m d = (if valid_date y m d then Inr \<lparr>d_year = y, d_month = m, d_day = d\<rparr> else Inl ValueError)"
  by (simp add: datetime_def)

text \<open>
  C6. A numeric token \<open>A/B/Y\<close> is resolved, in the extractor and in the query analyzer
  alike, as month/day/year first and as day/month/year when that is not a calendar date; a
  two-digit year below 50 is read as 20xx, another two-digit year as 19xx. In particular
  "13/02/2024" is the 13th of February 2024, for extraction and for classification.
\<close>

theorem C6_numeric_date_resolution:
  assumes "a \<noteq> []" "list_all is_digit a" "b \<noteq> []" "list_all is_digit b" "y \<noteq> []" "list_all is_digit y"
  shows "numeric_date a b y
           = Inr (spec_numeric_date (int_of_digits a) (int_of_digits b)
                    (fix_year (int_of_digits y)))
       \<and> qa_numeric_date a b y
           = Inr (spec_numeric_date (int_of_digits a) (int_of_digits b)
                    (fix_year (int_of_digits y)))
       \<and> (length y = 2 \<longrightarrow> fix_year (int_of_digits y) = spec_two_digit_year (int_of_digits y))
       \<and> extract_date ''13/02/2024'' now = Inr ''2024-02-13''
       \<and> classify ''13/02/2024'' now
           = Inr (''date_query'', \<lparr>p_date = Some ''2024-02-13'', p_type = None, p_month = None, p_year = None\<rparr>)"
proof -
  have 1: "numeric_date a b y
           = Inr (spec_numeric_date (int_of_digits a) (int_of_digits b)
                    (fix_year (int_of_digits y)))"
    using assms
    by (simp add: numeric_date_def try_datetime_def py_int_digits ebind_def datetime_cases
          spec_numeric_date_def)
  have 2: "qa_numeric_date a b y
           = Inr (spec_numeric_date (int_of_digits a) (int_of_digits b)
                    (fix_year (int_of_digits y)))"
    using assms
    by (simp add: qa_numeric_date_def py_int_digits ebind_def datetime_cases spec_numeric_date_def)
  have 3: "length y = 2 \<longrightarrow> fix_year (int_of_digits y) = spec_two_digit_year (int_of_digits y)"
    using two_digits_lt_100[of y] by (auto simp: fix_year_def spec_two_digit_year_def)
  have 4: "extract_date ''13/02/2024'' now = Inr ''2024-02-13''"
    by code_simp
  have 5: "classify ''13/02/2024'' now
           = Inr (''date_query'', \<lparr>p_date = Some ''2024-02-13'', p_type = None, p_month = None, p_year = None\<rparr>)"
    by code_simp
  from 1 2 3 4 5 show ?thesis by blast
qed

theorem C6_numeric_date_witness:
  "numeric_date ''13'' ''02'' ''2024'' = Inr (Some \<lparr>d_year = 2024, d_month = 2, d_day = 13\<rparr>)
   \<and> qa_numeric_date ''13'' ''02'' ''2024'' = Inr (Some \<lparr>d_year = 2024, d_month = 2, d_day = 13\<rparr>)
   \<and> numeric_date ''5'' ''6'' ''99'' = Inr (Some \<lparr>d_year = 1999, d_month = 5, d_day = 6\<rparr>)
   \<and> qa_numeric_date ''5'' ''6'' ''24'' = Inr (Some \<lparr>d_year = 2024, d_month = 5, d_day = 6\<rparr>)"
proof -
  have d: "list_all is_digit ''13''" "list_all is_digit ''02''" "list_all is_digit ''2024''"
    "list_all is_digit ''5''" "list_all is_digit ''6''" "list_all is_digit ''99''" "list_all is_digit ''24''"
    by (simp_all add: is_digit_def)
  have v: "int_of_digits ''13'' = 13" "int_of_digits ''02'' = 2" "int_of_digits ''2024'' = 2024"
    "int_of_digits ''5'' = 5" "int_of_digits ''6'' = 6" "int_of_digits ''99'' = 99" "int_of_digits ''24'' = 24"
    by (simp_all add: int_of_digits_def digit_val_def)
  have s: "spec_numeric_date 13 2 2024 = Some \<lparr>d_year = 2024, d_month = 2, d_day = 13\<rparr>"
    "spec_numeric_date 5 6 1999 = Some \<lparr>d_year = 1999, d_month = 5, d_day = 6\<rparr>"
    "spec_numeric_date 5 6 2024 = Some \<lparr>d_year = 2024, d_month = 5, d_day = 6\<rparr>"
    by (simp_all add: spec_numeric_date_def valid_date_def days_in_month_def is_leap_def)
  have e: "''13'' \<noteq> []" "''02'' \<noteq> []" "''2024'' \<noteq> []" "''5'' \<noteq> []" "''6'' \<noteq> []"
    "''99'' \<noteq> []" "''24'' \<noteq> []"
    by simp_all
  show ?thesis
    using C6_numeric_date_resolution[OF e(1) d(1) e(2) d(2) e(3) d(3)]
          C6_numeric_date_resolution[OF e(4) d(4) e(5) d(5) e(6) d(6)]
          C6_numeric_date_resolution[OF e(4) d(4) e(5) d(5) e(7) d(7)]
    by (simp add: v s fix_year_def)
qed


subsection \<open>Spoken numbers\<close>

lemma starts_number_eq: "starts_number w = number_word w"
  by (auto simp: starts_number_def number_word_def map_of_eq_None_iff image_iff
      units_def tens_def scales_def)

lemma and_is_no_scale: "map_of scales ''and'' = None"
  by (simp add: scales_def)

lemma convert_loop_spec:
  "convert_loop ts current tot i =
     (case foldl spec_step (current, tot) (takeWhile number_word ts) of
        (running, t) \<Rightarrow> (t + running, i + length (takeWhile number_word ts)))"
proof (induction ts arbitrary: current tot i)
  case Nil
  then show ?case by simp
next
  case (Cons w ts)
  have nw: "number_word w = (map_of units w \<noteq> None \<or> map_of tens w \<noteq> None \<or> map_of scales w \<noteq> None
      \<or> w = ''and'')"
    using starts_number_eq[of w] by (simp add: starts_number_def)
  show ?case
    by (auto simp: nw Cons.IH spec_step_def map_add_def and_is_no_scale split: option.splits)
qed

lemma convert_number_phrase_spec:
  "convert_number_phrase tokens
     = (spec_value (takeWhile number_word tokens), length (takeWhile number_word tokens))"
  by (simp add: convert_number_phrase_def convert_loop_spec spec_value_def split: prod.splits)

lemma takeWhile_lower:
  "takeWhile number_word (map lower ts) = map lower (takeWhile number_token ts)"
  by (simp add: takeWhile_map comp_def number_token_def[abs_def])

lemma replace_loop_spec: "replace_loop ts out = out @ spec_replace ts"
proof (induction ts out rule: replace_loop.induct)
  case (1 out)
  then show ?case by simp
next
  case (2 t ts out)
  show ?case
  proof (cases "number_token t")
    case False
    then have "\<not> starts_number (lower t)" by (simp add: starts_number_eq number_token_def)
    with 2 False show ?thesis by simp
  next
    case True
    then have sn: "starts_number (lower t)" by (simp add: starts_number_eq number_token_def)
    let ?k = "length (takeWhile number_token (t # ts))"
    have cnp: "convert_number_phrase (map lower (t # ts))
                 = (spec_value (map lower (takeWhile number_token (t # ts))), ?k)"
      by (simp only: convert_number_phrase_spec takeWhile_lower length_map)
    have pos: "0 < ?k" using True by simp
    have dr: "drop ?k (t # ts) = dropWhile number_token ts"
      using True dropWhile_eq_drop[of number_token "t # ts"] by simp
    have "replace_loop (t # ts) out
            = replace_loop (drop ?k (t # ts))
                (out @ [str_int (spec_value (map lower (takeWhile number_token (t # ts))))])"
      using sn pos by (simp only: replace_loop.simps cnp) simp
    also have "\<dots> = (out @ [str_int (spec_value (map lower (takeWhile number_token (t # ts))))])
                      @ spec_replace (drop ?k (t # ts))"
      using "2.IH"(1)[OF sn cnp[symmetric] pos] .
    finally show ?thesis using True dr by simp
  qed
qed

text \<open>
  C5. \<open>convert_number_phrase\<close> consumes the maximal run of number words at the front of its
  tokens and returns the value of the accumulator the specification describes; the
  normalizer replaces every maximal run of number words by that value. "two lakh" becomes
  200000 and "one hundred and five" becomes 105.
\<close>

theorem C5_spoken_number_normalization:
  "convert_number_phrase tokens
     = (spec_value (takeWhile number_word tokens), length (takeWhile number_word tokens))
   \<and> replace_loop tokens [] = spec_replace tokens
   \<and> normalize_number_words ''two lakh'' = ''200000''
   \<and> normalize_number_words ''one hundred and five'' = ''105''"
proof -
  have 1: "normalize_number_words ''two lakh'' = ''200000''" by code_simp
  have 2: "normalize_number_words ''one hundred and five'' = ''105''" by code_simp
  have 3: "replace_loop tokens [] = spec_replace tokens" by (simp add: replace_loop_spec)
  from 1 2 3 convert_number_phrase_spec[of tokens] show ?thesis by blast
qed


subsection \<open>Amounts\<close>


text \<open>
  C4. The claim is that a text with a percentage-of-base construct yields
  \<open>base * pct / 100\<close>, so "profit is 10% of invested 1,000" should yield 100 and
  "profit is 2.5% of invested 1000" should yield 25. The patterns provide for thousands
  separators and for decimals in the percentage, but the normalizer has put a space around
  every comma and point before they are applied: the first text is read with base 1 and
  yields 0.1, the second is read without any percentage and yields 2.
\<close>

theorem C4_separators_and_decimals_are_lost:
  "extract_amount ''profit is 10% of invested 1,000'' = Inr (1 / 10)
   \<and> extract_amount ''profit is 2.5% of invested 1000'' = Inr 2"
proof -
  have 1: "extract_amount ''profit is 10% of invested 1,000'' = Inr (1 / 10)" by code_simp
  have 2: "extract_amount ''profit is 2.5% of invested 1000'' = Inr 2" by code_simp
  from 1 2 show ?thesis by simp
qed





subsection \<open>The record file\<close>

lemma header_normal: "map (\<lambda>column. lower (strip column)) expected_header = expected_header"
  by code_simp

lemma ensure_idem: "ensure_file_exists (ensure_file_exists f) = ensure_file_exists f"
  by (auto simp: ensure_file_exists_def header_normal split: option.splits list.splits)

lemma read_all_ensure: "read_all_records float_f (ensure_file_exists f) = read_all_records float_f f"
  by (simp add: read_all_records_def ensure_idem)

lemma snd_read_all: "snd (read_all_records float_f f) = ensure_file_exists f"
  by (simp add: read_all_records_def Let_def split: option.splits list.splits)

lemma wf_file_ensure:
  assumes "wf_file float_f f"
  shows "\<exists>data. ensure_file_exists f = Some (expected_header # data)
           \<and> list_all (\<lambda>row. record_of_row float_f row \<noteq> None) data
           \<and> stored_records float_f f = List.map_filter (record_of_row float_f) data"
  using assms
  by (auto simp: wf_file_def ensure_file_exists_def header_normal stored_records_def map_filter_simps
           split: option.splits list.splits)

text \<open>The dictionary that the read loop builds for the row of a record.\<close>

lemma read_loop_row:
  assumes "record_of_row float_f row = Some e"
  shows "read_loop float_f expected_header (row # rest)
           = ((''amount'', PFloat (r_amount e)) #
              [(''details'', PStr (r_details e)), (''date'', PStr (r_date e)),
               (''amount'', PStr (row ! 1)), (''type'', PStr (r_type e))])
             # read_loop float_f expected_header rest"
proof -
  from assms obtain t a d x q where row: "row = [t, a, d, x]" and q: "float_f a = Some q"
    and e: "e = \<lparr>r_type = t, r_amount = q, r_date = d, r_details = x\<rparr>"
    by (auto simp: record_of_row_def split: list.splits option.splits)
  show ?thesis
    by (simp add: row q e dict_row_def expected_header_def)
qed

lemma key_of_read_row:
  "record_key str_f ((''amount'', PFloat q) #
      [(''details'', PStr x), (''date'', PStr d), (''amount'', PStr a), (''type'', PStr t)])
     = (lower t, str_f q, d, x)"
  by (simp add: record_key_def dict_get_def py_str_def)

lemma key_of_record_dict:
  "record_key str_f (record_dict r) = (lower (r_type r), str_f (r_amount r), r_date r, r_details r)"
  by (simp add: record_key_def record_dict_def dict_get_def py_str_def)

lemma str_f_inj:
  assumes "float_f (str_f a) = Some a" "float_f (str_f b) = Some b"
  shows "str_f a = str_f b \<longleftrightarrow> a = b"
  using assms by (metis option.inject)

lemma duplicate_iff_same_record:
  assumes "list_all (\<lambda>row. record_of_row float_f row \<noteq> None) data"
    and "float_f (str_f (r_amount r)) = Some (r_amount r)"
    and "list_all (\<lambda>q. float_f (str_f q) = Some q)
           (map r_amount (List.map_filter (record_of_row float_f) data))"
  shows "list_ex (\<lambda>existing. record_key str_f existing = record_key str_f (record_dict r))
           (read_loop float_f expected_header data)
         = list_ex (same_record r) (List.map_filter (record_of_row float_f) data)"
  using assms(1,3)
proof (induction data)
  case Nil
  then show ?case by (simp add: map_filter_simps)
next
  case (Cons row data)
  from Cons.prems(1) obtain e where e: "record_of_row float_f row = Some e" by auto
  from Cons.prems(2) e have rt: "float_f (str_f (r_amount e)) = Some (r_amount e)"
    by (simp add: map_filter_simps)
  have ih: "list_ex (\<lambda>existing. record_key str_f existing = record_key str_f (record_dict r))
              (read_loop float_f expected_header data)
            = list_ex (same_record r) (List.map_filter (record_of_row float_f) data)"
    using Cons.IH Cons.prems e by (simp add: map_filter_simps)
  have k: "(lower (r_type e), str_f (r_amount e), r_date e, r_details e)
             = (lower (r_type r), str_f (r_amount r), r_date r, r_details r)
           \<longleftrightarrow> same_record r e"
    using str_f_inj[of float_f str_f "r_amount e" "r_amount r", OF rt assms(2)]
    by (auto simp: same_record_def)
  show ?case
    using k by (simp add: read_loop_row[OF e] key_of_read_row key_of_record_dict
                  ih[unfolded key_of_record_dict] map_filter_simps e del: read_loop.simps)
qed

lemma writable_record_dict: "writable (record_dict r)"
  by (simp add: writable_def record_dict_def expected_header_def)

lemma row_of_record_dict:
  "row_of_record str_f (record_dict r) = [r_type r, str_f (r_amount r), r_date r, r_details r]"
  by (simp add: row_of_record_def record_dict_def expected_header_def dict_get_def cell_str_def)

lemma record_of_saved_row:
  assumes "float_f (str_f (r_amount r)) = Some (r_amount r)"
  shows "record_of_row float_f (row_of_record str_f (record_dict r)) = Some r"
  using assms by (cases r) (simp add: row_of_record_dict record_of_row_def)

lemma read_all_wf:
  assumes "ensure_file_exists f = Some (expected_header # data)"
  shows "read_all_records float_f f = (read_loop float_f expected_header data, Some (expected_header # data))"
  using assms by (simp add: read_all_records_def)

lemma read_loop_append:
  "list_all (\<lambda>row. record_of_row float_f row \<noteq> None) data \<Longrightarrow>
   read_loop float_f expected_header (data @ rows2)
     = read_loop float_f expected_header data @ read_loop float_f expected_header rows2"
proof (induction data)
  case Nil
  then show ?case by simp
next
  case (Cons row data)
  from Cons.prems obtain e where e: "record_of_row float_f row = Some e" by auto
  from Cons show ?case
    by (simp add: read_loop_row[OF e] del: read_loop.simps)
qed

text \<open>
  C8. \<open>save_record\<close> returns a boolean in every case: the model is a total function and
  every exception of its \<open>try\<close> block is one of its \<open>False\<close> branches. On a ledger file, for
  a record of four fields and amounts that Python prints and reads back unchanged, it
  returns \<open>False\<close> exactly when a stored record has the same type (case-insensitive),
  amount, date and details, or when the append fails, and \<open>True\<close> otherwise. When it returns
  \<open>False\<close> the file is the one the header check leaves and the stored records are the same.
\<close>

theorem C8_save_record_status:
  assumes "wf_file float_f f"
    and "list_all (\<lambda>q. float_f (str_f q) = Some q)
           (r_amount r # map r_amount (stored_records float_f f))"
  shows "fst (save_record str_f float_f (record_dict r) True f append_ok)
           = (\<not> list_ex (same_record r) (stored_records float_f f) \<and> append_ok)
       \<and> (\<not> fst (save_record str_f float_f (record_dict r) True f append_ok) \<longrightarrow>
            snd (save_record str_f float_f (record_dict r) True f append_ok) = ensure_file_exists f
            \<and> stored_records float_f (snd (save_record str_f float_f (record_dict r) True f append_ok))
                = stored_records float_f f)"
proof -
  from wf_file_ensure[OF assms(1)] obtain data where
    en: "ensure_file_exists f = Some (expected_header # data)"
    and ok: "list_all (\<lambda>row. record_of_row float_f row \<noteq> None) data"
    and st: "stored_records float_f f = List.map_filter (record_of_row float_f) data"
    by blast
  have en2: "ensure_file_exists (Some (expected_header # data)) = Some (expected_header # data)"
    using ensure_idem[of f] by (simp add: en)
  note ra = read_all_wf[OF en2, of float_f]
  have dup: "list_ex (\<lambda>existing. record_key str_f existing = record_key str_f (record_dict r))
               (read_loop float_f expected_header data)
             = list_ex (same_record r) (stored_records float_f f)"
    using duplicate_iff_same_record[OF ok, of str_f r] assms(2) by (simp add: st)
  have st2: "stored_records float_f (Some (expected_header # data)) = stored_records float_f f"
    unfolding st by (simp add: stored_records_def)
  show ?thesis
    by (simp add: save_record_def Let_def ra dup writable_record_dict en st2)
qed

theorem C8_save_record_status_witness:
  "fst (save_record str_cents float_of_str
          (record_dict \<lparr>r_type = ''loss'', r_amount = 200, r_date = ''2024-03-01'',
                        r_details = ''Lost on groceries''\<rparr>) True
          (Some [[''type'', ''amount'', ''date'', ''details''],
                 [''Loss'', ''200.0'', ''2024-03-01'', ''Lost on groceries'']]) True) = False
   \<and> snd (save_record str_cents float_of_str
          (record_dict \<lparr>r_type = ''loss'', r_amount = 200, r_date = ''2024-03-01'',
                        r_details = ''Lost on groceries''\<rparr>) True
          (Some [[''type'', ''amount'', ''date'', ''details''],
                 [''Loss'', ''200.0'', ''2024-03-01'', ''Lost on groceries'']]) True)
       = Some [[''type'', ''amount'', ''date'', ''details''],
               [''Loss'', ''200.0'', ''2024-03-01'', ''Lost on groceries'']]"
proof -
  let ?r = "\<lparr>r_type = ''loss'', r_amount = 200, r_date = ''2024-03-01'', r_details = ''Lost on groceries''\<rparr>"
  let ?f = "Some [[''type'', ''amount'', ''date'', ''details''],
                  [''Loss'', ''200.0'', ''2024-03-01'', ''Lost on groceries'']]"
  have w: "wf_file float_of_str ?f" by code_simp
  have rt: "list_all (\<lambda>q. float_of_str (str_cents q) = Some q)
              (r_amount ?r # map r_amount (stored_records float_of_str ?f))"
    by code_simp
  have d: "list_ex (same_record ?r) (stored_records float_of_str ?f)" by code_simp
  have e: "ensure_file_exists ?f = ?f" by code_simp
  from C8_save_record_status[OF w rt, of True] d e show ?thesis by simp
qed

text \<open>
  C9. When \<open>save_record\<close> returns \<open>True\<close> for a record on a ledger file, \<open>read_all_records\<close>
  afterwards returns a row with the type, date and details of the record as texts and its
  amount as the same number; the record is the last of the stored records and the file is
  a ledger again. This holds for every record whose amount Python prints and reads back
  unchanged, the records that \<open>extract\<close> produces among them.
\<close>

theorem C9_saved_record_is_read_back:
  assumes "wf_file float_f f"
    and "float_f (str_f (r_amount r)) = Some (r_amount r)"
    and "save_record str_f float_f (record_dict r) True f append_ok = (True, f')"
  shows "list_ex (\<lambda>e. dict_get e ''type'' PNone = PStr (r_type r)
                     \<and> dict_get e ''amount'' PNone = PFloat (r_amount r)
                     \<and> dict_get e ''date'' PNone = PStr (r_date r)
                     \<and> dict_get e ''details'' PNone = PStr (r_details r))
                 (fst (read_all_records float_f f'))
       \<and> stored_records float_f f' = stored_records float_f f @ [r]
       \<and> wf_file float_f f'"
proof -
  from wf_file_ensure[OF assms(1)] obtain data where
    en: "ensure_file_exists f = Some (expected_header # data)"
    and ok: "list_all (\<lambda>row. record_of_row float_f row \<noteq> None) data"
    and st: "stored_records float_f f = List.map_filter (record_of_row float_f) data"
    by blast
  let ?row = "row_of_record str_f (record_dict r)"
  have en2: "ensure_file_exists (Some (expected_header # data)) = Some (expected_header # data)"
    using ensure_idem[of f] by (simp add: en)
  note ra = read_all_wf[OF en2, of float_f]
  have f': "f' = Some (expected_header # data @ [?row])"
    using assms(3) by (simp add: save_record_def Let_def en ra split: if_splits)
  have rr: "record_of_row float_f ?row = Some r"
    using record_of_saved_row[of float_f str_f r] assms(2) by simp
  have en': "ensure_file_exists f' = f'"
    by (simp add: f' ensure_file_exists_def header_normal)
  have "fst (read_all_records float_f f')
          = read_loop float_f expected_header data @ read_loop float_f expected_header [?row]"
    using read_loop_append[OF ok, of "[?row]"] read_all_wf[of f' "data @ [?row]" float_f] en'
    by (simp add: f')
  also have "read_loop float_f expected_header [?row]
          = [(''amount'', PFloat (r_amount r)) #
              [(''details'', PStr (r_details r)), (''date'', PStr (r_date r)),
               (''amount'', PStr (?row ! 1)), (''type'', PStr (r_type r))]]"
    using read_loop_row[OF rr, of "[]"] by simp
  finally have 1: "list_ex (\<lambda>e. dict_get e ''type'' PNone = PStr (r_type r)
                     \<and> dict_get e ''amount'' PNone = PFloat (r_amount r)
                     \<and> dict_get e ''date'' PNone = PStr (r_date r)
                     \<and> dict_get e ''details'' PNone = PStr (r_details r))
                 (fst (read_all_records float_f f'))"
    by (simp add: dict_get_def)
  have 2: "stored_records float_f f' = stored_records float_f f @ [r]"
    unfolding st by (simp add: f' stored_records_def map_filter_def rr)
  have 3: "wf_file float_f f'"
    using ok rr by (simp add: f' wf_file_def)
  from 1 2 3 show ?thesis by simp
qed

theorem C9_saved_record_is_read_back_witness:
  "extract_record ''Lost $200 on groceries'' \<lparr>d_year = 2024, d_month = 3, d_day = 1\<rparr>
     = Inr \<lparr>r_type = ''loss'', r_amount = 200, r_date = ''2024-03-01'', r_details = ''Lost on groceries''\<rparr>
   \<and> stored_records float_of_str
         (Some [[''type'', ''amount'', ''date'', ''details''],
                [''loss'', ''200.0'', ''2024-03-01'', ''Lost on groceries'']])
       = [\<lparr>r_type = ''loss'', r_amount = 200, r_date = ''2024-03-01'', r_details = ''Lost on groceries''\<rparr>]
   \<and> list_ex (\<lambda>e. dict_get e ''type'' PNone = PStr ''loss''
                  \<and> dict_get e ''amount'' PNone = PFloat 200
                  \<and> dict_get e ''date'' PNone = PStr ''2024-03-01''
                  \<and> dict_get e ''details'' PNone = PStr ''Lost on groceries'')
         (fst (read_all_records float_of_str
                 (Some [[''type'', ''amount'', ''date'', ''details''],
                        [''loss'', ''200.0'', ''2024-03-01'', ''Lost on groceries'']])))"
proof -
  let ?r = "\<lparr>r_type = ''loss'', r_amount = 200, r_date = ''2024-03-01'', r_details = ''Lost on groceries''\<rparr>"
  have x: "extract_record ''Lost $200 on groceries'' \<lparr>d_year = 2024, d_month = 3, d_day = 1\<rparr> = Inr ?r"
    by code_simp
  have w: "wf_file float_of_str None" by (simp add: wf_file_def)
  have rt: "float_of_str (str_cents (r_amount ?r)) = Some (r_amount ?r)" by code_simp
  have sv: "save_record str_cents float_of_str (record_dict ?r) True None True
              = (True, Some [[''type'', ''amount'', ''date'', ''details''],
                             [''loss'', ''200.0'', ''2024-03-01'', ''Lost on groceries'']])"
    by code_simp
  have s0: "stored_records float_of_str None = []" by (simp add: stored_records_def)
  from C9_saved_record_is_read_back[OF w rt sv] x s0 show ?thesis by simp
qed

end
